theory Spec2Isabelle
  imports Complex_Main "HOL-Library.Multiset"
begin

section \<open>The retrieval pipeline of \<^verbatim>\<open>backend/retriever.py\<close>\<close>

text \<open>
  The theory embeds the four functions of \<^verbatim>\<open>retriever.py\<close>: \<^verbatim>\<open>_cosine\<close>,
  \<^verbatim>\<open>mmr\<close>, \<^verbatim>\<open>cohere_rerank\<close> and \<^verbatim>\<open>retrieve\<close>. Every exception the code can
  raise is a value of \<open>py_error\<close>, and a function that can raise returns
  \<open>py_error + 'a\<close>.

  Python floats are written as real numbers. Comparing two finite floats is comparing
  the reals they denote, but the products, sums, quotients and square roots of the code
  are rounded and can overflow to \<open>inf\<close> or \<open>nan\<close>, which the reals do not show. So
  the theorems about \<open>mmr\<close> below are stated without any fact about the values it
  computes, and the concrete runs that are evaluated use inputs on which the float
  arithmetic of the code is exact or its outcome does not depend on rounding.
\<close>

subsection \<open>Python values and exceptions\<close>

datatype py_error =
    TypeError | IndexError | ZeroDivisionError | AttributeError | UnicodeEncodeError
  | ServiceError string

text \<open>\<^verbatim>\<open>xs[i]\<close> for an integer \<open>i\<close>: \<open>-1\<close> is the last element, and IndexError outside \<open>-n \<le> i < n\<close>.\<close>

definition py_getitem :: "'a list \<Rightarrow> int \<Rightarrow> py_error + 'a" where
  "py_getitem xs i =
     (if 0 \<le> i \<and> i < int (length xs) then Inr (xs ! nat i)
      else if i < 0 \<and> - int (length xs) \<le> i then Inr (xs ! nat (int (length xs) + i))
      else Inl IndexError)"

text \<open>\<^verbatim>\<open>xs[:k]\<close>: a negative bound drops that many elements from the end.\<close>

definition py_slice_to :: "'a list \<Rightarrow> int \<Rightarrow> 'a list" where
  "py_slice_to xs k =
     (if 0 \<le> k then take (nat k) xs else take (nat (int (length xs) + k)) xs)"

text \<open>\<^verbatim>\<open>xs.pop(i)\<close> for a natural index: the element and the list without it.\<close>

definition pop :: "nat \<Rightarrow> 'a list \<Rightarrow> py_error + ('a \<times> 'a list)" where
  "pop i xs =
     (if i < length xs then Inr (xs ! i, take i xs @ drop (Suc i) xs) else Inl IndexError)"

text \<open>A list comprehension whose body may raise: the first exception ends it.\<close>

fun map_result :: "('a \<Rightarrow> py_error + 'b) \<Rightarrow> 'a list \<Rightarrow> py_error + 'b list" where
  "map_result f [] = Inr []"
| "map_result f (x # xs) =
     (case f x of
        Inl e \<Rightarrow> Inl e
      | Inr y \<Rightarrow> (case map_result f xs of Inl e \<Rightarrow> Inl e | Inr ys \<Rightarrow> Inr (y # ys)))"

subsection \<open>Candidates\<close>

text \<open>
  What reading a dictionary key or an object attribute with a default can find: nothing
  (the default is used), the Python value \<^verbatim>\<open>None\<close>, or a value.
\<close>

datatype 'a attr = Absent | IsNone | Has 'a

text \<open>
  The dictionary \<^verbatim>\<open>{"id", "score", "vector", "payload"}\<close> that \<^verbatim>\<open>retrieve\<close> builds
  for every hit. \<^verbatim>\<open>mmr\<close> reads the score with \<^verbatim>\<open>c.get("score", 0.0)\<close>, so the key
  may be absent or hold \<^verbatim>\<open>None\<close>; \<open>vector = None\<close> and \<open>payload = None\<close> are the
  Python value \<^verbatim>\<open>None\<close>. A payload dictionary is an association list.
\<close>

record candidate =
  cid :: string
  score :: "real attr"
  vector :: "real list option"
  payload :: "(string \<times> string) list option"

text \<open>\<^verbatim>\<open>sim_q = c.get("score", 0.0)\<close>: a float, or \<^verbatim>\<open>None\<close>.\<close>

definition sim_q :: "candidate \<Rightarrow> real option" where
  "sim_q c = (case score c of Absent \<Rightarrow> Some 0 | IsNone \<Rightarrow> None | Has s \<Rightarrow> Some s)"

subsection \<open>\<^verbatim>\<open>_cosine\<close>\<close>

definition dot :: "real list \<Rightarrow> real list \<Rightarrow> real" where
  "dot a b = sum_list (map (\<lambda>(x, y). x * y) (zip a b))"

definition norm2 :: "real list \<Rightarrow> real" where
  "norm2 a = sqrt (sum_list (map (\<lambda>x. x * x) a))"

definition cosine :: "real list \<Rightarrow> real list \<Rightarrow> py_error + real" where
  "cosine a b =
     (let d = dot a b; na = norm2 a; nb = norm2 b; den = na * nb + 1 / 10 ^ 8
      in if den = 0 then Inl ZeroDivisionError else Inr (d / den))"

subsection \<open>\<^verbatim>\<open>mmr\<close>\<close>

text \<open>
  \<^verbatim>\<open>_cosine(c["vector"], s["vector"])\<close>: \<^verbatim>\<open>zip\<close> raises TypeError when either
  argument is \<^verbatim>\<open>None\<close>.
\<close>

definition cosine_of :: "candidate \<Rightarrow> candidate \<Rightarrow> py_error + real" where
  "cosine_of c s =
     (case vector c of
        None \<Rightarrow> Inl TypeError
      | Some a \<Rightarrow> (case vector s of None \<Rightarrow> Inl TypeError | Some b \<Rightarrow> cosine a b))"

text \<open>
  \<^verbatim>\<open>max(_cosine(c["vector"], s["vector"]) for s in selected) if selected else 0.0\<close>
\<close>

definition sim_sel :: "candidate \<Rightarrow> candidate list \<Rightarrow> py_error + real" where
  "sim_sel c selected =
     (if selected = [] then Inr 0
      else (case map_result (cosine_of c) selected of
              Inl e \<Rightarrow> Inl e
            | Inr vs \<Rightarrow> Inr (Max (set vs))))"

text \<open>
  \<^verbatim>\<open>val = lamb * sim_q - (1.0 - lamb) * sim_sel\<close>, after \<^verbatim>\<open>sim_sel\<close> has been
  computed: the product with \<^verbatim>\<open>None\<close> raises TypeError.
\<close>

definition mmr_val :: "real \<Rightarrow> candidate list \<Rightarrow> candidate \<Rightarrow> py_error + real" where
  "mmr_val lamb selected c =
     (case sim_sel c selected of
        Inl e \<Rightarrow> Inl e
      | Inr s \<Rightarrow>
          (case sim_q c of
             None \<Rightarrow> Inl TypeError
           | Some q \<Rightarrow> Inr (lamb * q - (1 - lamb) * s)))"

text \<open>
  The inner \<^verbatim>\<open>for i, c in enumerate(remaining)\<close> loop, with its two variables
  \<^verbatim>\<open>best_idx\<close> and \<^verbatim>\<open>best_val\<close> as the state.
\<close>

fun scan :: "real \<Rightarrow> candidate list \<Rightarrow> (nat \<times> candidate) list \<Rightarrow> nat option \<times> real
    \<Rightarrow> py_error + (nat option \<times> real)" where
  "scan lamb selected [] st = Inr st"
| "scan lamb selected ((i, c) # rest) (best_idx, best_val) =
     (case mmr_val lamb selected c of
        Inl e \<Rightarrow> Inl e
      | Inr val \<Rightarrow>
          if val > best_val then scan lamb selected rest (Some i, val)
          else scan lamb selected rest (best_idx, best_val))"

text \<open>
  One round of the \<^verbatim>\<open>while\<close> loop: the scan starts from \<^verbatim>\<open>(None, -1e9)\<close>, and
  \<^verbatim>\<open>remaining.pop(None)\<close> raises TypeError when no value exceeded the sentinel.
\<close>

definition pick :: "real \<Rightarrow> candidate list \<Rightarrow> candidate list
    \<Rightarrow> py_error + (candidate \<times> candidate list)" where
  "pick lamb selected remaining =
     (case scan lamb selected (enumerate 0 remaining) (None, - (10 ^ 9)) of
        Inl e \<Rightarrow> Inl e
      | Inr (None, _) \<Rightarrow> Inl TypeError
      | Inr (Some i, _) \<Rightarrow> pop i remaining)"

function mmr_loop :: "candidate list \<Rightarrow> candidate list \<Rightarrow> int \<Rightarrow> real
    \<Rightarrow> py_error + candidate list" where
  "mmr_loop selected remaining k lamb =
     (if int (length selected) < k \<and> remaining \<noteq> [] then
        (case pick lamb selected remaining of
           Inl e \<Rightarrow> Inl e
         | Inr (c, rest) \<Rightarrow> mmr_loop (selected @ [c]) rest k lamb)
      else Inr selected)"
  by pat_completeness auto
termination
  by (relation "measure (\<lambda>(selected, remaining, k, lamb). length remaining)")
     (auto simp: pick_def pop_def split: sum.splits option.splits if_splits prod.splits)

definition mmr :: "candidate list \<Rightarrow> int \<Rightarrow> real \<Rightarrow> py_error + candidate list" where
  "mmr candidates k lamb = mmr_loop [] candidates k lamb"

subsection \<open>\<^verbatim>\<open>cohere_rerank\<close>\<close>

text \<open>
  One entry of \<^verbatim>\<open>resp.results\<close> (\<^verbatim>\<open>r.index\<close>, \<^verbatim>\<open>r.score\<close>) and the response.
\<close>

record rerank_result =
  index :: int
  r_score :: real

record rerank_response =
  results :: "rerank_result list"

text \<open>
  The Cohere client is outside the repository. \<^verbatim>\<open>co.rerank(model, query, documents)\<close>
  is a function of its three arguments that answers with a response or raises
  (\<open>Inl\<close>; a response the code cannot read raises inside the same \<^verbatim>\<open>try\<close>). Every
  call made is appended to a list of requests, which the functions below pass along.
\<close>

type_synonym request = "string \<times> string \<times> string list"

type_synonym client = "string \<Rightarrow> string \<Rightarrow> string list \<Rightarrow> py_error + rerank_response"

text \<open>
  \<^verbatim>\<open>co = cohere.Client(api_key=COHERE_API_KEY) if COHERE_API_KEY else None\<close>
\<close>

definition co :: "string \<Rightarrow> (string \<Rightarrow> client) \<Rightarrow> client option" where
  "co COHERE_API_KEY Client = (if COHERE_API_KEY \<noteq> [] then Some (Client COHERE_API_KEY) else None)"

text \<open>\<^verbatim>\<open>sorted(resp.results, key=lambda r: r.score, reverse=True)\<close>: stable, descending.\<close>

definition ranked :: "rerank_response \<Rightarrow> rerank_result list" where
  "ranked resp = sort_key (\<lambda>r. - r_score r) (results resp)"

text \<open>
  The \<^verbatim>\<open>except\<close> handler prints a warning that starts with the character U+26A0 before
  it returns. \<open>py_print e\<close> is that \<^verbatim>\<open>print\<close> for the exception \<open>e\<close>: it succeeds, or
  it raises (UnicodeEncodeError where the standard output cannot encode the warning), and
  an exception raised in the handler leaves \<^verbatim>\<open>cohere_rerank\<close>.
\<close>

definition rerank_failed :: "(py_error \<Rightarrow> py_error + unit) \<Rightarrow> py_error
    \<Rightarrow> py_error + (string list \<times> rerank_response option)" where
  "rerank_failed py_print e = (case py_print e of Inl e' \<Rightarrow> Inl e' | Inr u \<Rightarrow> Inr ([], None))"

definition cohere_rerank :: "(py_error \<Rightarrow> py_error + unit) \<Rightarrow> client option \<Rightarrow> string
    \<Rightarrow> string list \<Rightarrow> string \<Rightarrow> int \<Rightarrow> request list
    \<Rightarrow> (py_error + (string list \<times> rerank_response option)) \<times> request list" where
  "cohere_rerank py_print co_client query docs model top_k calls =
     (case co_client of
        None \<Rightarrow> (Inr ([], None), calls)
      | Some rerank \<Rightarrow>
          if docs = [] then (Inr ([], None), calls)
          else
            (let calls' = calls @ [(model, query, docs)] in
             case rerank model query docs of
               Inl e \<Rightarrow> (rerank_failed py_print e, calls')
             | Inr resp \<Rightarrow>
                 (let top = py_slice_to (ranked resp) top_k in
                  case map_result (\<lambda>r. py_getitem docs (index r)) top of
                    Inl e \<Rightarrow> (rerank_failed py_print e, calls')
                  | Inr ranked_docs \<Rightarrow> (Inr (ranked_docs, Some resp), calls'))))"

subsection \<open>\<^verbatim>\<open>retrieve\<close>\<close>

text \<open>
  A hit of the vector search: an object each of whose four attributes may be missing, be
  \<^verbatim>\<open>None\<close> or hold a value (\<^verbatim>\<open>getattr(h, name, default)\<close>).
\<close>

record hit =
  h_id :: "string attr"
  h_score :: "real attr"
  h_vector :: "real list attr"
  h_payload :: "(string \<times> string) list attr"

definition to_candidate :: "hit \<Rightarrow> candidate" where
  "to_candidate h =
     \<lparr> cid = (case h_id h of Has s \<Rightarrow> s | _ \<Rightarrow> ''None''),
       score = (case h_score h of Absent \<Rightarrow> Has 0 | IsNone \<Rightarrow> IsNone | Has s \<Rightarrow> Has s),
       vector = (case h_vector h of Has v \<Rightarrow> Some v | _ \<Rightarrow> None),
       payload = (case h_payload h of Absent \<Rightarrow> Some [] | IsNone \<Rightarrow> None | Has p \<Rightarrow> Some p) \<rparr>"

text \<open>
  \<^verbatim>\<open>c["payload"].get("text", "")\<close>: AttributeError when the payload is \<^verbatim>\<open>None\<close>.
\<close>

definition text_of :: "candidate \<Rightarrow> py_error + string" where
  "text_of c =
     (case payload c of
        None \<Rightarrow> Inl AttributeError
      | Some p \<Rightarrow> Inr (case map_of p ''text'' of None \<Rightarrow> [] | Some t \<Rightarrow> t))"

text \<open>
  \<^verbatim>\<open>search_vectors\<close> (the vector database) and the constant \<^verbatim>\<open>RERANK_MODEL\<close> of
  \<^verbatim>\<open>config.py\<close> are parameters. Only the mapping of the rerank indices is inside a
  \<^verbatim>\<open>try\<close>: an exception of the search, of \<^verbatim>\<open>mmr\<close>, of the reading of the texts or of
  \<^verbatim>\<open>cohere_rerank\<close> leaves \<^verbatim>\<open>retrieve\<close>. A response object is true in
  \<^verbatim>\<open>if rerank_meta\<close>.
\<close>

definition retrieve :: "(py_error \<Rightarrow> py_error + unit)
    \<Rightarrow> (real list \<Rightarrow> int \<Rightarrow> bool \<Rightarrow> py_error + hit list) \<Rightarrow> client option
    \<Rightarrow> string \<Rightarrow> real list \<Rightarrow> string \<Rightarrow> int \<Rightarrow> int \<Rightarrow> int \<Rightarrow> request list
    \<Rightarrow> (py_error + candidate list) \<times> request list" where
  "retrieve py_print search_vectors co_client RERANK_MODEL query_vector query_text topk mmr_k
       rerank_topk calls =
     (case search_vectors query_vector topk True of
        Inl e \<Rightarrow> (Inl e, calls)
      | Inr hits \<Rightarrow>
          if hits = [] then (Inr [], calls)
          else
            (case mmr (map to_candidate hits) mmr_k (1 / 2) of
               Inl e \<Rightarrow> (Inl e, calls)
             | Inr mmr_sel \<Rightarrow>
                 (case map_result text_of mmr_sel of
                    Inl e \<Rightarrow> (Inl e, calls)
                  | Inr docs \<Rightarrow>
                      (case cohere_rerank py_print co_client query_text docs RERANK_MODEL
                              rerank_topk calls of
                         (Inl e, calls') \<Rightarrow> (Inl e, calls')
                       | (Inr (reranked_docs, None), calls') \<Rightarrow>
                           (Inr (py_slice_to mmr_sel rerank_topk), calls')
                       | (Inr (reranked_docs, Some rerank_meta), calls') \<Rightarrow>
                           (case map_result (\<lambda>r. py_getitem mmr_sel (index r))
                                   (py_slice_to (ranked rerank_meta) rerank_topk) of
                              Inl e \<Rightarrow> (Inr (py_slice_to mmr_sel rerank_topk), calls')
                            | Inr top_items \<Rightarrow> (Inr top_items, calls'))))))"

section \<open>The similarity engine\<close>

lemma sum_squares_nonneg: "0 \<le> sum_list (map (\<lambda>x. x * x) (a::real list))"
  by (induction a) auto

lemma norm2_nonneg: "0 \<le> norm2 a"
  by (simp add: norm2_def sum_squares_nonneg)

text \<open>
  C5. For every pair of vectors \<open>a\<close> and \<open>b\<close> (of equal length or not, of zero norm or
  not) \<open>cosine a b\<close> returns a value, never the division error: the denominator is
  the product of the norms plus the fixed epsilon \<open>1e-8\<close>, so it is at least \<open>1e-8\<close>.
\<close>

theorem cosine_no_division_error:
  "cosine a b = Inr (dot a b / (norm2 a * norm2 b + 1 / 10 ^ 8)) \<and>
   1 / 10 ^ 8 \<le> norm2 a * norm2 b + 1 / 10 ^ 8"
proof -
  have nonneg: "0 \<le> norm2 a * norm2 b"
    by (simp add: norm2_nonneg)
  then have "norm2 a * norm2 b + 1 / 10 ^ 8 \<noteq> 0"
    by simp
  with nonneg show ?thesis
    by (simp add: cosine_def Let_def)
qed

theorem cosine_no_division_error_witness: "cosine [0, 0] [3, 4] = Inr 0"
  using cosine_no_division_error [of "[0, 0]" "[3, 4]"] by (simp add: dot_def norm2_def)

section \<open>The MMR selector\<close>

subsection \<open>One round\<close>

lemma map_result_length: "map_result f xs = Inr ys \<Longrightarrow> length ys = length xs"
  by (induction xs arbitrary: ys) (auto split: sum.splits)

lemma map_result_nth:
  "map_result f xs = Inr ys \<Longrightarrow> i < length xs \<Longrightarrow> f (xs ! i) = Inr (ys ! i)"
  by (induction xs arbitrary: ys i) (auto split: sum.splits simp: nth_Cons')

lemma map_result_Inl:
  "x \<in> set xs \<Longrightarrow> f x = Inl e \<Longrightarrow> \<exists>e'. map_result f xs = Inl e'"
  by (induction xs) (auto split: sum.splits)

text \<open>A round that picks takes one position out of the pool.\<close>

lemma pick_shape:
  "pick lamb selected remaining = Inr (c, rest) \<Longrightarrow>
     \<exists>j<length remaining. c = remaining ! j \<and> rest = take j remaining @ drop (Suc j) remaining"
  by (auto simp: pick_def pop_def split: sum.splits option.splits if_splits prod.splits)

text \<open>The first round reads no vector.\<close>

lemma mmr_val_no_vector: "mmr_val lamb [] (c\<lparr>vector := v\<rparr>) = mmr_val lamb [] c"
  by (simp add: mmr_val_def sim_sel_def sim_q_def)

lemma scan_no_vector:
  "scan lamb [] (enumerate n (map (\<lambda>c. c\<lparr>vector := v\<rparr>) cs)) st = scan lamb [] (enumerate n cs) st"
proof (induction cs arbitrary: n st)
  case Nil
  then show ?case by simp
next
  case (Cons c cs)
  obtain best_idx best_val where st: "st = (best_idx, best_val)" by (cases st)
  show ?case
    unfolding st using Cons.IH by (simp add: mmr_val_no_vector split: sum.splits)
qed

lemma pick_no_vector:
  "pick lamb [] (map (\<lambda>c. c\<lparr>vector := v\<rparr>) cs) =
     (case pick lamb [] cs of
        Inl e \<Rightarrow> Inl e
      | Inr (c, rest) \<Rightarrow> Inr (c\<lparr>vector := v\<rparr>, map (\<lambda>c. c\<lparr>vector := v\<rparr>) rest))"
  by (auto simp: pick_def pop_def scan_no_vector take_map drop_map
      split: sum.splits option.splits prod.splits)

subsection \<open>The loop\<close>

declare mmr_loop.simps [simp del]

lemma mmr_loop_stop:
  assumes "\<not> (int (length selected) < k \<and> remaining \<noteq> [])"
  shows "mmr_loop selected remaining k lamb = Inr selected"
  by (subst mmr_loop.simps) (rule if_not_P [OF assms])

lemma mmr_loop_step:
  "int (length selected) < k \<Longrightarrow> remaining \<noteq> [] \<Longrightarrow> pick lamb selected remaining = Inr (c, rest) \<Longrightarrow>
     mmr_loop selected remaining k lamb = mmr_loop (selected @ [c]) rest k lamb"
  by (subst mmr_loop.simps) simp

lemma mmr_loop_raise:
  "int (length selected) < k \<Longrightarrow> remaining \<noteq> [] \<Longrightarrow> pick lamb selected remaining = Inl e \<Longrightarrow>
     mmr_loop selected remaining k lamb = Inl e"
  by (subst mmr_loop.simps) simp

text \<open>
  Whatever the loop returns extends what was selected by candidates taken out of the pool,
  one per round, until \<open>k\<close> are selected or the pool is empty.
\<close>

lemma mmr_loop_shape:
  "mmr_loop selected remaining k lamb = Inr sel \<Longrightarrow>
     \<exists>picked rest. sel = selected @ picked \<and> mset (picked @ rest) = mset remaining \<and>
        length picked = min (nat (k - int (length selected))) (length remaining)"
proof (induction selected remaining k lamb arbitrary: sel rule: mmr_loop.induct)
  case (1 selected remaining k lamb)
  show ?case
  proof (cases "int (length selected) < k \<and> remaining \<noteq> []")
    case False
    with "1.prems" have "sel = selected @ []" by (simp add: mmr_loop_stop)
    moreover have "length ([]::candidate list) = min (nat (k - int (length selected))) (length remaining)"
      using False by auto
    ultimately show ?thesis
      by (intro exI [of _ "[]"] exI [of _ remaining]) simp
  next
    case True
    show ?thesis
    proof (cases "pick lamb selected remaining")
      case (Inl e)
      with True "1.prems" show ?thesis by (simp add: mmr_loop_raise)
    next
      case (Inr p)
      obtain c rest where p: "p = (c, rest)" by (cases p)
      from Inr p obtain j where j: "j < length remaining" "c = remaining ! j"
          "rest = take j remaining @ drop (Suc j) remaining"
        using pick_shape by blast
      have next_round: "mmr_loop (selected @ [c]) rest k lamb = Inr sel"
        using True Inr p "1.prems" by (simp add: mmr_loop_step)
      from "1.IH" [OF True Inr p [symmetric] next_round]
      obtain picked rest' where r: "sel = (selected @ [c]) @ picked" "mset (picked @ rest') = mset rest"
          "length picked = min (nat (k - int (length (selected @ [c])))) (length rest)"
        by blast
      have "mset remaining = mset (take j remaining @ remaining ! j # drop (Suc j) remaining)"
        using j(1) by (simp add: id_take_nth_drop [symmetric])
      then have ms: "mset ((c # picked) @ rest') = mset remaining"
        using r(2) j by simp
      have "length rest = length remaining - 1" using j(1,3) by auto
      then have len: "length (c # picked) = min (nat (k - int (length selected))) (length remaining)"
        using r(3) True j(1) by auto
      from r(1) ms len show ?thesis
        by (intro exI [of _ "c # picked"] exI [of _ rest']) simp
    qed
  qed
qed

lemma mmr_shape:
  assumes "mmr cs k lamb = Inr sel"
  shows "\<exists>rest. mset (sel @ rest) = mset cs \<and> length sel = min (nat k) (length cs)"
proof -
  from assms obtain picked rest where "sel = [] @ picked" "mset (picked @ rest) = mset cs"
      "length picked = min (nat (k - int (length ([]::candidate list)))) (length cs)"
    unfolding mmr_def using mmr_loop_shape by blast
  then show ?thesis by auto
qed

lemma distinct_map_mono:
  assumes "mset xs \<subseteq># mset ys" "distinct (map f ys)"
  shows "distinct (map f xs)"
proof -
  from assms(1) have "image_mset f (mset xs) \<subseteq># image_mset f (mset ys)"
    by (rule image_mset_subseteq_mono)
  then have sub: "mset (map f xs) \<subseteq># mset (map f ys)" by simp
  have "count (mset (map f ys)) a \<le> 1" for a
    using assms(2) by (simp add: distinct_count_atmost_1)
  then have "count (mset (map f xs)) a \<le> 1" for a
    using sub by (meson mset_subset_eq_count order_trans)
  then show ?thesis
    by (metis count_mset_0_iff distinct_count_atmost_1 le_antisym le_zero_eq not_one_le_zero One_nat_def Suc_le_eq not_gr_zero)
qed

lemma mmr_sub_mset: "mmr cs k lamb = Inr sel \<Longrightarrow> mset sel \<subseteq># mset cs"
  using mmr_shape by (metis mset_append mset_subset_eq_add_left)

lemma mmr_empty_iff: "mmr cs k lamb = Inr [] \<longleftrightarrow> k \<le> 0 \<or> cs = []"
proof
  assume "k \<le> 0 \<or> cs = []"
  then have "\<not> (int (length ([]::candidate list)) < k \<and> cs \<noteq> [])" by auto
  then show "mmr cs k lamb = Inr []" unfolding mmr_def by (rule mmr_loop_stop)
next
  assume "mmr cs k lamb = Inr []"
  from mmr_shape [OF this] have "0 = min (nat k) (length cs)" by simp
  then show "k \<le> 0 \<or> cs = []" by (auto simp: min_def split: if_splits)
qed

lemma mmr_one_no_vector:
  "mmr (map (\<lambda>c. c\<lparr>vector := v\<rparr>) cs) 1 lamb =
     (case mmr cs 1 lamb of Inl e \<Rightarrow> Inl e | Inr sel \<Rightarrow> Inr (map (\<lambda>c. c\<lparr>vector := v\<rparr>) sel))"
proof (cases "cs = []")
  case True
  then show ?thesis by (simp add: mmr_def mmr_loop_stop)
next
  case False
  let ?f = "\<lambda>c. c\<lparr>vector := v\<rparr>"
  show ?thesis
  proof (cases "pick lamb [] cs")
    case (Inl e)
    then have "pick lamb [] (map ?f cs) = Inl e" by (simp add: pick_no_vector)
    with Inl False show ?thesis by (simp add: mmr_def mmr_loop_raise)
  next
    case (Inr p)
    obtain c rest where p: "p = (c, rest)" by (cases p)
    have there: "pick lamb [] (map ?f cs) = Inr (?f c, map ?f rest)"
      using Inr p by (simp add: pick_no_vector)
    have "mmr cs 1 lamb = mmr_loop ([] @ [c]) rest 1 lamb"
      unfolding mmr_def using False Inr p by (intro mmr_loop_step) simp_all
    also have "\<dots> = Inr ([] @ [c])" by (rule mmr_loop_stop) simp
    finally have a: "mmr cs 1 lamb = Inr [c]" by simp
    have "mmr (map ?f cs) 1 lamb = mmr_loop ([] @ [?f c]) (map ?f rest) 1 lamb"
      unfolding mmr_def using False there by (intro mmr_loop_step) simp_all
    also have "\<dots> = Inr ([] @ [?f c])" by (rule mmr_loop_stop) simp
    finally have b: "mmr (map ?f cs) 1 lamb = Inr [?f c]" by simp
    from a b show ?thesis by simp
  qed
qed

subsection \<open>Claims about the selector\<close>

text \<open>
  C1, as the code has it. Candidates without a vector are not taken out of the pool. For
  every candidate list, every \<open>k\<close> and every \<open>lamb\<close>, \<open>mmr\<close> returns the empty Selection
  exactly when \<open>k \<le> 0\<close> or the list is empty; and with \<open>k = 1\<close> it does with the list
  stripped of all its vectors what it does with the list itself: the same exception, or
  the candidate at the same position. Nothing is said here about \<open>k \<ge> 2\<close>.
\<close>

theorem mmr_empty_selection:
  "(mmr cs k lamb = Inr [] \<longleftrightarrow> k \<le> 0 \<or> cs = []) \<and>
   mmr (map (\<lambda>c. c\<lparr>vector := None\<rparr>) cs) 1 lamb =
     (case mmr cs 1 lamb of
        Inl e \<Rightarrow> Inl e
      | Inr sel \<Rightarrow> Inr (map (\<lambda>c. c\<lparr>vector := None\<rparr>) sel))"
  using mmr_empty_iff [of cs k lamb] mmr_one_no_vector [of None cs lamb] by simp

theorem mmr_empty_selection_witness:
  "mmr [\<lparr>cid = ''a'', score = Has (1 / 5), vector = None, payload = Some []\<rparr>,
        \<lparr>cid = ''b'', score = Has (4 / 5), vector = None, payload = Some []\<rparr>] 0 (1 / 2) = Inr [] \<and>
   mmr [\<lparr>cid = ''a'', score = Has (1 / 5), vector = None, payload = Some []\<rparr>,
        \<lparr>cid = ''b'', score = Has (4 / 5), vector = None, payload = Some []\<rparr>] 1 (1 / 2) \<noteq> Inr []"
proof -
  let ?cs = "[\<lparr>cid = ''a'', score = Has (1 / 5), vector = None, payload = Some []\<rparr>,
        \<lparr>cid = ''b'', score = Has (4 / 5), vector = None, payload = Some []\<rparr>]"
  from mmr_empty_selection [of ?cs 0 "1 / 2"] have "mmr ?cs 0 (1 / 2) = Inr []"
    by simp
  moreover from mmr_empty_selection [of ?cs 1 "1 / 2"] have "mmr ?cs 1 (1 / 2) \<noteq> Inr []"
    by simp
  ultimately show ?thesis by blast
qed

text \<open>
  C1 as stated fails: one candidate without a vector is returned at \<open>k = 1\<close>, and two
  candidates without vectors raise TypeError at \<open>k = 2\<close>, in the second round.
\<close>

theorem mmr_without_vectors_counterexample:
  "mmr [\<lparr>cid = ''a'', score = Has 1, vector = None, payload = Some []\<rparr>] 1 (1 / 2) =
     Inr [\<lparr>cid = ''a'', score = Has 1, vector = None, payload = Some []\<rparr>] \<and>
   mmr [\<lparr>cid = ''a'', score = Has 1, vector = None, payload = Some []\<rparr>,
        \<lparr>cid = ''b'', score = Has 1, vector = None, payload = Some []\<rparr>] 2 (1 / 2) = Inl TypeError"
  by (simp add: mmr_def mmr_loop.simps pick_def mmr_val_def sim_sel_def sim_q_def pop_def cosine_of_def)

text \<open>
  C2, as the code has it. Every Selection that \<open>mmr\<close> returns has length
  \<open>min(max(k, 0), len(candidates))\<close>, where all candidates count, with or without a
  vector; it is made of candidates of the input, each taken at most as often as it occurs
  there, and it is a permutation of the whole input when \<open>k\<close> is at least the pool size.
  Nothing is said here about the inputs on which \<open>mmr\<close> raises.
\<close>

theorem mmr_length:
  assumes "mmr cs k lamb = Inr sel"
  shows "length sel = min (nat k) (length cs) \<and> mset sel \<subseteq># mset cs \<and>
         (int (length cs) \<le> k \<longrightarrow> mset sel = mset cs)"
proof -
  from mmr_shape [OF assms] obtain rest where
    r: "mset (sel @ rest) = mset cs" "length sel = min (nat k) (length cs)"
    by blast
  have sub: "mset sel \<subseteq># mset cs"
    using assms by (rule mmr_sub_mset)
  have all: "mset sel = mset cs" if "int (length cs) \<le> k"
  proof -
    from that r(2) have "length sel = length cs" by auto
    moreover have "length sel + length rest = length cs"
      using r(1) by (metis length_append size_mset)
    ultimately have "rest = []" by simp
    with r(1) show ?thesis by simp
  qed
  from r(2) sub all show ?thesis by blast
qed

theorem mmr_length_witness:
  "mmr [\<lparr>cid = ''a'', score = Has (9 / 10), vector = Some [0], payload = Some []\<rparr>,
        \<lparr>cid = ''b'', score = Has (1 / 2), vector = Some [0], payload = Some []\<rparr>] 5 (1 / 2) =
     Inr [\<lparr>cid = ''a'', score = Has (9 / 10), vector = Some [0], payload = Some []\<rparr>,
          \<lparr>cid = ''b'', score = Has (1 / 2), vector = Some [0], payload = Some []\<rparr>] \<and>
   length [\<lparr>cid = ''a'', score = Has (9 / 10), vector = Some [0], payload = Some []\<rparr>,
          \<lparr>cid = ''b'', score = Has (1 / 2), vector = Some [0], payload = Some []\<rparr>] = min (nat 5) 2"
proof -
  let ?cs = "[\<lparr>cid = ''a'', score = Has (9 / 10), vector = Some [0], payload = Some []\<rparr>,
        \<lparr>cid = ''b'', score = Has (1 / 2), vector = Some [0], payload = Some []\<rparr>]"
  have run: "mmr ?cs 5 (1 / 2) = Inr ?cs"
    by (simp add: mmr_def mmr_loop.simps pick_def mmr_val_def sim_sel_def sim_q_def pop_def
        cosine_of_def cosine_def dot_def norm2_def)
  from mmr_length [OF run] have "length ?cs = min (nat 5) (length ?cs)"
    by blast
  with run show ?thesis by simp
qed

text \<open>
  C2 as stated fails: of two candidates without vectors (no eligible candidate) \<open>mmr\<close>
  with \<open>k = 1\<close> returns one, so the length is 1 and not \<open>min(1, 0) = 0\<close>.
\<close>

theorem mmr_length_counterexample:
  "mmr [\<lparr>cid = ''a'', score = Has (1 / 5), vector = None, payload = Some []\<rparr>,
        \<lparr>cid = ''b'', score = Has (4 / 5), vector = None, payload = Some []\<rparr>] 1 (1 / 2) =
     Inr [\<lparr>cid = ''b'', score = Has (4 / 5), vector = None, payload = Some []\<rparr>]"
  by (simp add: mmr_def mmr_loop.simps pick_def mmr_val_def sim_sel_def sim_q_def pop_def)

text \<open>
  C3, as the code has it. \<open>mmr\<close> removes no duplicates. Every Selection it returns is
  made of candidates of the input, each taken at most as often as it occurs there; so for
  every candidate list whose ids are pairwise distinct, every \<open>k\<close> and every \<open>lamb\<close>,
  the Selection contains no two entries with the same id.
\<close>

theorem mmr_distinct_ids:
  assumes "mmr cs k lamb = Inr sel" "distinct (map cid cs)"
  shows "distinct (map cid sel) \<and> mset sel \<subseteq># mset cs"
  using assms mmr_sub_mset distinct_map_mono by blast

theorem mmr_distinct_ids_witness:
  "distinct (map cid [\<lparr>cid = ''a'', score = Has (9 / 10), vector = Some [0], payload = Some []\<rparr>,
              \<lparr>cid = ''b'', score = Has (1 / 2), vector = Some [0], payload = Some []\<rparr>]) \<and>
   distinct (map cid [\<lparr>cid = ''a'', score = Has (9 / 10), vector = Some [0], payload = Some []\<rparr>])"
proof -
  have run: "mmr [\<lparr>cid = ''a'', score = Has (9 / 10), vector = Some [0], payload = Some []\<rparr>,
              \<lparr>cid = ''b'', score = Has (1 / 2), vector = Some [0], payload = Some []\<rparr>] 1 (1 / 2)
       = Inr [\<lparr>cid = ''a'', score = Has (9 / 10), vector = Some [0], payload = Some []\<rparr>]"
    by (simp add: mmr_def mmr_loop.simps pick_def mmr_val_def sim_sel_def sim_q_def pop_def)
  have ids: "distinct (map cid [\<lparr>cid = ''a'', score = Has (9 / 10), vector = Some [0], payload = Some []\<rparr>,
              \<lparr>cid = ''b'', score = Has (1 / 2), vector = Some [0], payload = Some []\<rparr>])"
    by simp
  from mmr_distinct_ids [OF run ids] ids show ?thesis by blast
qed

text \<open>
  C3 as stated fails: two candidates with the same id are both selected at \<open>k = 2\<close>.
\<close>

theorem mmr_distinct_ids_counterexample:
  "mmr [\<lparr>cid = ''a'', score = Has (9 / 10), vector = Some [0], payload = Some []\<rparr>,
        \<lparr>cid = ''a'', score = Has (1 / 2), vector = Some [0], payload = Some []\<rparr>] 2 (1 / 2) =
     Inr [\<lparr>cid = ''a'', score = Has (9 / 10), vector = Some [0], payload = Some []\<rparr>,
          \<lparr>cid = ''a'', score = Has (1 / 2), vector = Some [0], payload = Some []\<rparr>]"
  by (simp add: mmr_def mmr_loop.simps pick_def mmr_val_def sim_sel_def sim_q_def pop_def
        cosine_of_def cosine_def dot_def norm2_def)

text \<open>
  C4 fails on the code at the sentinel. With \<open>lamb = 1\<close> a single candidate with a vector
  and the score \<open>-1e9\<close> is the whole descending order, but its value never exceeds the
  starting \<open>best_val = -1e9\<close>: \<open>best_idx\<close> stays \<open>None\<close> and \<open>remaining.pop(None)\<close>
  raises TypeError. On this input the float arithmetic of the code is exact.
\<close>

theorem mmr_lambda_one_sentinel:
  "mmr [\<lparr>cid = ''a'', score = Has (- (10 ^ 9)), vector = Some [1], payload = Some []\<rparr>] 1 1 =
     Inl TypeError"
  by (simp add: mmr_def mmr_loop.simps pick_def mmr_val_def sim_sel_def sim_q_def)

section \<open>The reranker adapter\<close>

text \<open>
  C6. Without a credential (\<^verbatim>\<open>COHERE_API_KEY\<close> empty) the client \<open>co\<close> is \<open>None\<close>, and
  for every query, document list, model and \<open>top_k\<close> the adapter returns the
  unavailable result \<open>([], None)\<close> and leaves the list of requests made to the
  scoring service as it was: no call is made (and nothing is printed).
\<close>

theorem rerank_not_configured:
  "co [] Client = None \<and>
   cohere_rerank py_print (co [] Client) query docs model top_k calls = (Inr ([], None), calls)"
  by (simp add: co_def cohere_rerank_def)

theorem rerank_not_configured_witness:
  "cohere_rerank (\<lambda>e. Inl UnicodeEncodeError) (co [] (\<lambda>key model query docs. Inr \<lparr>results = []\<rparr>))
     ''q'' [''d1'', ''d2''] ''rerank'' 5 [] = (Inr ([], None), [])"
  by (rule conjunct2 [OF rerank_not_configured])

text \<open>Python indexing and slicing, and the adapter's outcomes.\<close>

lemma py_getitem_in_set: "py_getitem xs i = Inr x \<Longrightarrow> x \<in> set xs"
  by (auto simp: py_getitem_def split: if_splits)

lemma py_getitem_out_of_range:
  "int (length xs) \<le> i \<or> i < - int (length xs) \<Longrightarrow> py_getitem xs i = Inl IndexError"
  by (auto simp: py_getitem_def)

lemma py_getitem_nonneg:
  "py_getitem xs i = Inr x \<Longrightarrow> 0 \<le> i \<Longrightarrow> nat i < length xs \<and> x = xs ! nat i"
  by (auto simp: py_getitem_def split: if_splits)

lemma length_py_slice_to: "0 \<le> k \<Longrightarrow> length (py_slice_to xs k) \<le> nat k"
  by (simp add: py_slice_to_def)

lemma py_slice_to_prefix: "\<exists>n. py_slice_to xs k = take n xs"
  by (auto simp: py_slice_to_def)

text \<open>Reading through the texts of a list reads the list at the same index.\<close>

lemma py_getitem_texts:
  assumes "map_result f xs = Inr ds" "py_getitem ds i = Inr d"
  shows "\<exists>x. py_getitem xs i = Inr x \<and> f x = Inr d"
proof -
  have len: "length ds = length xs" using assms(1) by (rule map_result_length)
  show ?thesis
  proof (cases "0 \<le> i")
    case True
    with assms(2) len have n: "nat i < length xs" "d = ds ! nat i" "i < int (length xs)"
      by (auto simp: py_getitem_def split: if_splits)
    from map_result_nth [OF assms(1) n(1)] n(2) have "f (xs ! nat i) = Inr d" by simp
    with True n(3) show ?thesis by (simp add: py_getitem_def)
  next
    case False
    with assms(2) len have n: "nat (int (length xs) + i) < length xs"
        "d = ds ! nat (int (length xs) + i)" "- int (length xs) \<le> i"
      by (auto simp: py_getitem_def split: if_splits)
    from map_result_nth [OF assms(1) n(1)] n(2) have "f (xs ! nat (int (length xs) + i)) = Inr d"
      by simp
    with False n(3) show ?thesis by (simp add: py_getitem_def)
  qed
qed

lemma map_result_texts:
  assumes "map_result f xs = Inr ds"
  shows "map_result (\<lambda>r. py_getitem ds (g r)) rs = Inr out \<Longrightarrow>
     \<exists>items. map_result (\<lambda>r. py_getitem xs (g r)) rs = Inr items \<and> map_result f items = Inr out"
proof (induction rs arbitrary: out)
  case Nil
  then show ?case by simp
next
  case (Cons r rs)
  from Cons.prems obtain d out' where d: "py_getitem ds (g r) = Inr d"
      "map_result (\<lambda>r. py_getitem ds (g r)) rs = Inr out'" "out = d # out'"
    by (auto split: sum.splits)
  from py_getitem_texts [OF assms d(1)] obtain x where x: "py_getitem xs (g r) = Inr x" "f x = Inr d"
    by blast
  from Cons.IH [OF d(2)] obtain items where
    "map_result (\<lambda>r. py_getitem xs (g r)) rs = Inr items" "map_result f items = Inr out'"
    by blast
  with x d(3) show ?case by simp
qed

lemma map_result_set:
  "map_result (\<lambda>r. py_getitem xs (g r)) rs = Inr items \<Longrightarrow> set items \<subseteq> set xs"
proof (induction rs arbitrary: items)
  case Nil
  then show ?case by simp
next
  case (Cons r rs)
  then show ?case
    by (auto split: sum.splits dest: py_getitem_in_set)
qed

lemma cohere_rerank_success:
  assumes "cohere_rerank py_print co_client query docs model top_k calls =
             (Inr (ranked_docs, Some resp), calls')"
  shows "\<exists>rerank. co_client = Some rerank \<and> docs \<noteq> [] \<and> rerank model query docs = Inr resp \<and>
           map_result (\<lambda>r. py_getitem docs (index r)) (py_slice_to (ranked resp) top_k) = Inr ranked_docs \<and>
           calls' = calls @ [(model, query, docs)]"
  using assms
  by (auto simp: cohere_rerank_def rerank_failed_def Let_def
      split: option.splits if_splits sum.splits)

text \<open>The order of \<open>ranked\<close>: descending by score, results of equal score as the response lists them.\<close>

lemma ranked_order:
  "sorted_wrt (\<lambda>a b. r_score b \<le> r_score a) (ranked resp) \<and>
   (\<forall>s. filter (\<lambda>r. r_score r = s) (ranked resp) = filter (\<lambda>r. r_score r = s) (results resp))"
proof -
  let ?f = "\<lambda>r. - r_score r"
  have "sorted (map ?f (sort_key ?f (results resp)))" by (rule sorted_sort_key)
  then have desc: "sorted_wrt (\<lambda>a b. r_score b \<le> r_score a) (ranked resp)"
    by (simp add: ranked_def sorted_map)
  have "filter (\<lambda>r. r_score r = s) (ranked resp) = filter (\<lambda>r. r_score r = s) (results resp)" for s
    using sort_key_stable [of ?f "- s" "results resp"] by (simp add: ranked_def)
  with desc show ?thesis by blast
qed

text \<open>Where the response lists its results by ascending index, so does every group of equal score.\<close>

lemma insort_key_ties:
  assumes "sorted_wrt (\<lambda>a b. f a = f b \<longrightarrow> h a \<le> h b) ys" "\<forall>y\<in>set ys. h x \<le> h y"
  shows "sorted_wrt (\<lambda>a b. f a = f b \<longrightarrow> h a \<le> h b) (insort_key f x ys)"
  using assms
proof (induction ys)
  case Nil
  then show ?case by simp
next
  case (Cons y ys)
  show ?case
  proof (cases "f x \<le> f y")
    case True
    with Cons.prems show ?thesis by simp
  next
    case False
    have "sorted_wrt (\<lambda>a b. f a = f b \<longrightarrow> h a \<le> h b) (insort_key f x ys)"
      using Cons by simp
    moreover have "\<forall>z\<in>set (insort_key f x ys). f y = f z \<longrightarrow> h y \<le> h z"
      using Cons.prems(1) False by (auto simp: set_insort_key)
    ultimately show ?thesis using False by simp
  qed
qed

lemma sort_key_ties:
  fixes h :: "'a \<Rightarrow> int"
  assumes "sorted (map h xs)"
  shows "sorted_wrt (\<lambda>a b. f a = f b \<longrightarrow> h a \<le> h b) (sort_key f xs)"
  using assms
proof (induction xs)
  case Nil
  then show ?case by simp
next
  case (Cons x xs)
  have "sorted_wrt (\<lambda>a b. f a = f b \<longrightarrow> h a \<le> h b) (sort_key f xs)"
    using Cons by simp
  moreover have "\<forall>y\<in>set (sort_key f xs). h x \<le> h y"
    using Cons.prems by simp
  ultimately show ?case by (simp add: insort_key_ties)
qed

lemma ranked_ties:
  assumes "sorted (map index (results resp))"
  shows "sorted_wrt (\<lambda>a b. r_score a = r_score b \<longrightarrow> index a \<le> index b) (py_slice_to (ranked resp) top_k)"
proof -
  have "sorted_wrt (\<lambda>a b. - r_score a = - r_score b \<longrightarrow> index a \<le> index b) (ranked resp)"
    unfolding ranked_def using assms by (rule sort_key_ties)
  then have all: "sorted_wrt (\<lambda>a b. r_score a = r_score b \<longrightarrow> index a \<le> index b) (ranked resp)"
    by simp
  obtain n where "py_slice_to (ranked resp) top_k = take n (ranked resp)"
    using py_slice_to_prefix by blast
  with all show ?thesis by (simp add: sorted_wrt_take)
qed

text \<open>
  C7, as the code has it. For every successful answer of the adapter, the documents
  returned are \<open>docs[r.index]\<close> for the first \<open>top_k\<close> results in descending score order,
  and the sort is stable with respect to the order of \<^verbatim>\<open>resp.results\<close>: results of equal
  score stay in the order the service listed them. Where the response lists its results by
  ascending index and no index is negative, two results of equal score in the output are
  the documents \<open>docs[m]\<close> and \<open>docs[n]\<close> with \<open>m \<le> n\<close>: the original document order.
\<close>

theorem rerank_stable:
  assumes "cohere_rerank py_print co_client query docs model top_k calls =
             (Inr (ranked_docs, Some resp), calls')"
  shows "\<exists>top. top = py_slice_to (ranked resp) top_k \<and>
           map_result (\<lambda>r. py_getitem docs (index r)) top = Inr ranked_docs \<and>
           sorted_wrt (\<lambda>a b. r_score b \<le> r_score a) (ranked resp) \<and>
           (\<forall>s. filter (\<lambda>r. r_score r = s) (ranked resp) = filter (\<lambda>r. r_score r = s) (results resp)) \<and>
           (sorted (map index (results resp)) \<and> (\<forall>r\<in>set (results resp). 0 \<le> index r) \<longrightarrow>
              (\<forall>i j. i < j \<and> j < length ranked_docs \<and> r_score (top ! i) = r_score (top ! j) \<longrightarrow>
                 (\<exists>m n. m \<le> n \<and> n < length docs \<and> index (top ! i) = int m \<and> index (top ! j) = int n \<and>
                    ranked_docs ! i = docs ! m \<and> ranked_docs ! j = docs ! n)))"
proof -
  let ?top = "py_slice_to (ranked resp) top_k"
  have docs: "map_result (\<lambda>r. py_getitem docs (index r)) ?top = Inr ranked_docs"
    using cohere_rerank_success [OF assms] by blast
  have len: "length ranked_docs = length ?top"
    using docs by (rule map_result_length)
  have ties: "\<exists>m n. m \<le> n \<and> n < length docs \<and> index (?top ! i) = int m \<and> index (?top ! j) = int n \<and>
                    ranked_docs ! i = docs ! m \<and> ranked_docs ! j = docs ! n"
    if asc: "sorted (map index (results resp))" and nonneg: "\<forall>r\<in>set (results resp). 0 \<le> index r"
      and ij: "i < j" "j < length ranked_docs" "r_score (?top ! i) = r_score (?top ! j)" for i j
  proof -
    have i: "i < length ?top" and j: "j < length ?top" using ij len by auto
    obtain n where "?top = take n (ranked resp)"
      using py_slice_to_prefix by blast
    then have "set ?top \<subseteq> set (ranked resp)"
      by (simp add: set_take_subset)
    then have sub: "set ?top \<subseteq> set (results resp)"
      by (simp add: ranked_def)
    have pi: "0 \<le> index (?top ! i)" and pj: "0 \<le> index (?top ! j)"
      using nonneg sub i j by (auto dest: nth_mem)
    have le: "index (?top ! i) \<le> index (?top ! j)"
      using ranked_ties [OF asc, of top_k] ij(1,3) j by (auto simp: sorted_wrt_iff_nth_less)
    from map_result_nth [OF docs i] have "py_getitem docs (index (?top ! i)) = Inr (ranked_docs ! i)" .
    from py_getitem_nonneg [OF this pi]
    have a: "nat (index (?top ! i)) < length docs" "ranked_docs ! i = docs ! nat (index (?top ! i))"
      by simp_all
    from map_result_nth [OF docs j] have "py_getitem docs (index (?top ! j)) = Inr (ranked_docs ! j)" .
    from py_getitem_nonneg [OF this pj]
    have b: "nat (index (?top ! j)) < length docs" "ranked_docs ! j = docs ! nat (index (?top ! j))"
      by simp_all
    show ?thesis
      using a b le pi pj
      by (intro exI [of _ "nat (index (?top ! i))"] exI [of _ "nat (index (?top ! j))"]) simp
  qed
  have tied: "sorted (map index (results resp)) \<and> (\<forall>r\<in>set (results resp). 0 \<le> index r) \<longrightarrow>
              (\<forall>i j. i < j \<and> j < length ranked_docs \<and> r_score (?top ! i) = r_score (?top ! j) \<longrightarrow>
                 (\<exists>m n. m \<le> n \<and> n < length docs \<and> index (?top ! i) = int m \<and> index (?top ! j) = int n \<and>
                    ranked_docs ! i = docs ! m \<and> ranked_docs ! j = docs ! n))"
  proof (intro impI allI)
    fix i j
    assume h: "sorted (map index (results resp)) \<and> (\<forall>r\<in>set (results resp). 0 \<le> index r)"
      and ij: "i < j \<and> j < length ranked_docs \<and> r_score (?top ! i) = r_score (?top ! j)"
    show "\<exists>m n. m \<le> n \<and> n < length docs \<and> index (?top ! i) = int m \<and> index (?top ! j) = int n \<and>
                    ranked_docs ! i = docs ! m \<and> ranked_docs ! j = docs ! n"
      by (rule ties) (simp_all add: h ij)
  qed
  have desc: "sorted_wrt (\<lambda>a b. r_score b \<le> r_score a) (ranked resp)"
    and stable: "\<forall>s. filter (\<lambda>r. r_score r = s) (ranked resp) = filter (\<lambda>r. r_score r = s) (results resp)"
    using ranked_order [of resp] by simp_all
  show ?thesis
    by (intro exI [of _ ?top] conjI refl docs desc stable tied)
qed

theorem rerank_stable_witness:
  "cohere_rerank (\<lambda>e. Inr ())
     (Some (\<lambda>model query docs. Inr \<lparr>results = [\<lparr>index = 0, r_score = 1 / 2\<rparr>,
        \<lparr>index = 1, r_score = 9 / 10\<rparr>, \<lparr>index = 2, r_score = 1 / 2\<rparr>]\<rparr>))
     ''q'' [''a'', ''b'', ''c''] ''rerank'' 3 [] =
     (Inr ([''b'', ''a'', ''c''], Some \<lparr>results = [\<lparr>index = 0, r_score = 1 / 2\<rparr>,
        \<lparr>index = 1, r_score = 9 / 10\<rparr>, \<lparr>index = 2, r_score = 1 / 2\<rparr>]\<rparr>),
      [(''rerank'', ''q'', [''a'', ''b'', ''c''])]) \<and>
   filter (\<lambda>r. r_score r = 1 / 2) (ranked \<lparr>results = [\<lparr>index = 0, r_score = 1 / 2\<rparr>,
        \<lparr>index = 1, r_score = 9 / 10\<rparr>, \<lparr>index = 2, r_score = 1 / 2\<rparr>]\<rparr>) =
     [\<lparr>index = 0, r_score = 1 / 2\<rparr>, \<lparr>index = 2, r_score = 1 / 2\<rparr>]"
proof -
  let ?resp = "\<lparr>results = [\<lparr>index = 0, r_score = 1 / 2\<rparr>,
        \<lparr>index = 1, r_score = 9 / 10\<rparr>, \<lparr>index = 2, r_score = 1 / 2\<rparr>]\<rparr>"
  have run: "cohere_rerank (\<lambda>e. Inr ()) (Some (\<lambda>model query docs. Inr ?resp)) ''q'' [''a'', ''b'', ''c'']
       ''rerank'' 3 [] =
     (Inr ([''b'', ''a'', ''c''], Some ?resp), [(''rerank'', ''q'', [''a'', ''b'', ''c''])])"
    by (simp add: cohere_rerank_def ranked_def py_slice_to_def py_getitem_def)
  from rerank_stable [OF run]
  have "filter (\<lambda>r. r_score r = 1 / 2) (ranked ?resp) = filter (\<lambda>r. r_score r = 1 / 2) (results ?resp)"
    by blast
  with run show ?thesis by simp
qed

text \<open>
  C7 as stated fails: the service lists document 1 before document 0 with equal scores, and
  the adapter returns the second document before the first.
\<close>

theorem rerank_stable_counterexample:
  "cohere_rerank (\<lambda>e. Inr ())
     (Some (\<lambda>model query docs. Inr \<lparr>results = [\<lparr>index = 1, r_score = 1 / 2\<rparr>,
        \<lparr>index = 0, r_score = 1 / 2\<rparr>]\<rparr>))
     ''q'' [''first'', ''second''] ''rerank'' 5 [] =
     (Inr ([''second'', ''first''], Some \<lparr>results = [\<lparr>index = 1, r_score = 1 / 2\<rparr>,
        \<lparr>index = 0, r_score = 1 / 2\<rparr>]\<rparr>),
      [(''rerank'', ''q'', [''first'', ''second''])])"
  by (simp add: cohere_rerank_def ranked_def py_slice_to_def py_getitem_def)

section \<open>The retrieval orchestrator\<close>

text \<open>
  Once the search has answered with hits, \<open>mmr\<close> has returned and the texts have been
  read, the rest of \<open>retrieve\<close>.
\<close>

lemma retrieve_after_mmr:
  assumes "search_vectors query_vector topk True = Inr hits" "hits \<noteq> []"
    and "mmr (map to_candidate hits) mmr_k (1 / 2) = Inr mmr_sel"
    and "map_result text_of mmr_sel = Inr docs"
  shows "retrieve py_print search_vectors co_client RERANK_MODEL query_vector query_text topk mmr_k
           rerank_topk calls =
     (case cohere_rerank py_print co_client query_text docs RERANK_MODEL rerank_topk calls of
        (Inl e, calls') \<Rightarrow> (Inl e, calls')
      | (Inr (reranked_docs, None), calls') \<Rightarrow> (Inr (py_slice_to mmr_sel rerank_topk), calls')
      | (Inr (reranked_docs, Some rerank_meta), calls') \<Rightarrow>
          (case map_result (\<lambda>r. py_getitem mmr_sel (index r))
                  (py_slice_to (ranked rerank_meta) rerank_topk) of
             Inl e \<Rightarrow> (Inr (py_slice_to mmr_sel rerank_topk), calls')
           | Inr top_items \<Rightarrow> (Inr top_items, calls')))"
  using assms by (simp add: retrieve_def)

lemma map_result_getitem_error:
  "map_result (\<lambda>r. py_getitem xs (g r)) rs = Inl e \<Longrightarrow> e = IndexError"
  by (induction rs) (auto simp: py_getitem_def split: sum.splits if_splits)

text \<open>
  C8. For every non-empty search result on which \<open>mmr\<close> returned \<open>mmr_sel\<close> and the
  texts were read, whenever the adapter answers with a response, \<open>retrieve\<close> orders the
  results of the response by descending relevance score (results of equal score as the
  response lists them), takes the first \<open>rerank_topk\<close> of them and returns the survivors
  at their indices (read as Python reads \<^verbatim>\<open>mmr_sel[idx]\<close>): as many items as that slice
  has, at most \<open>rerank_topk\<close>, each a full candidate of \<open>mmr_sel\<close>, and their texts are
  the documents the adapter returned.
\<close>

theorem retrieve_reranked:
  assumes "search_vectors query_vector topk True = Inr hits" "hits \<noteq> []"
    and "mmr (map to_candidate hits) mmr_k (1 / 2) = Inr mmr_sel"
    and "map_result text_of mmr_sel = Inr docs"
    and "cohere_rerank py_print co_client query_text docs RERANK_MODEL rerank_topk calls =
           (Inr (reranked_docs, Some rerank_meta), calls')"
  shows "\<exists>ordered top_items.
           retrieve py_print search_vectors co_client RERANK_MODEL query_vector query_text topk mmr_k
             rerank_topk calls = (Inr top_items, calls') \<and>
           ordered = sort_key (\<lambda>r. - r_score r) (results rerank_meta) \<and>
           sorted_wrt (\<lambda>a b. r_score b \<le> r_score a) ordered \<and>
           (\<forall>s. filter (\<lambda>r. r_score r = s) ordered = filter (\<lambda>r. r_score r = s) (results rerank_meta)) \<and>
           map_result (\<lambda>r. py_getitem mmr_sel (index r)) (py_slice_to ordered rerank_topk) = Inr top_items \<and>
           length top_items = length (py_slice_to ordered rerank_topk) \<and>
           (0 \<le> rerank_topk \<longrightarrow> length top_items \<le> nat rerank_topk) \<and>
           set top_items \<subseteq> set mmr_sel \<and>
           map_result text_of top_items = Inr reranked_docs"
proof -
  let ?ordered = "sort_key (\<lambda>r. - r_score r) (results rerank_meta)"
  have ord: "ranked rerank_meta = ?ordered" by (simp add: ranked_def)
  from cohere_rerank_success [OF assms(5)]
  have "map_result (\<lambda>r. py_getitem docs (index r)) (py_slice_to ?ordered rerank_topk) = Inr reranked_docs"
    unfolding ord by blast
  from map_result_texts [OF assms(4) this] obtain top_items where
    items: "map_result (\<lambda>r. py_getitem mmr_sel (index r)) (py_slice_to ?ordered rerank_topk) = Inr top_items"
    and texts: "map_result text_of top_items = Inr reranked_docs"
    by blast
  have len: "length top_items = length (py_slice_to ?ordered rerank_topk)"
    using items by (rule map_result_length)
  have cut: "0 \<le> rerank_topk \<longrightarrow> length top_items \<le> nat rerank_topk"
    using len length_py_slice_to [of rerank_topk ?ordered] by simp
  have sub: "set top_items \<subseteq> set mmr_sel"
    using items by (rule map_result_set)
  have desc: "sorted_wrt (\<lambda>a b. r_score b \<le> r_score a) ?ordered"
    and stable: "\<forall>s. filter (\<lambda>r. r_score r = s) ?ordered = filter (\<lambda>r. r_score r = s) (results rerank_meta)"
    using ranked_order [of rerank_meta] unfolding ord by simp_all
  have run: "retrieve py_print search_vectors co_client RERANK_MODEL query_vector query_text topk mmr_k
             rerank_topk calls = (Inr top_items, calls')"
    using assms(5) items
    by (simp add: ord retrieve_after_mmr [where search_vectors = search_vectors
          and query_vector = query_vector and topk = topk, OF assms(1,2,3,4)])
  show ?thesis
    by (intro exI [of _ ?ordered] exI [of _ top_items] conjI refl run desc stable items len cut sub texts)
qed

theorem retrieve_reranked_witness:
  "fst (retrieve (\<lambda>e. Inr ()) (\<lambda>query_vector top_k with_payload. Inr [\<lparr>h_id = Has ''p0'', h_score = Has (9 / 10), h_vector = Has [0],
        h_payload = Has [(''text'', ''alpha'')]\<rparr>,
      \<lparr>h_id = Has ''p1'', h_score = Has (1 / 2), h_vector = Has [0],
        h_payload = Has [(''text'', ''beta'')]\<rparr>,
      \<lparr>h_id = Has ''p2'', h_score = Has (3 / 10), h_vector = Has [0],
        h_payload = Has [(''text'', ''gamma'')]\<rparr>])
      (Some (\<lambda>model query docs. Inr \<lparr>results = [\<lparr>index = 0, r_score = 1 / 10\<rparr>, \<lparr>index = 1, r_score = 1 / 2\<rparr>, \<lparr>index = 2, r_score = 9 / 10\<rparr>]\<rparr>))
      ''rerank'' [1] ''q'' 12 3 2 []) =
     Inr [\<lparr>cid = ''p2'', score = Has (3 / 10), vector = Some [0],
        payload = Some [(''text'', ''gamma'')]\<rparr>,
      \<lparr>cid = ''p1'', score = Has (1 / 2), vector = Some [0],
        payload = Some [(''text'', ''beta'')]\<rparr>]"
proof -
  let ?search = "(\<lambda>query_vector top_k with_payload. Inr [\<lparr>h_id = Has ''p0'', h_score = Has (9 / 10), h_vector = Has [0],
        h_payload = Has [(''text'', ''alpha'')]\<rparr>,
      \<lparr>h_id = Has ''p1'', h_score = Has (1 / 2), h_vector = Has [0],
        h_payload = Has [(''text'', ''beta'')]\<rparr>,
      \<lparr>h_id = Has ''p2'', h_score = Has (3 / 10), h_vector = Has [0],
        h_payload = Has [(''text'', ''gamma'')]\<rparr>])"
  let ?resp = "\<lparr>results = [\<lparr>index = 0, r_score = 1 / 10\<rparr>, \<lparr>index = 1, r_score = 1 / 2\<rparr>, \<lparr>index = 2, r_score = 9 / 10\<rparr>]\<rparr>"
  let ?sel = "[\<lparr>cid = ''p0'', score = Has (9 / 10), vector = Some [0],
        payload = Some [(''text'', ''alpha'')]\<rparr>,
      \<lparr>cid = ''p1'', score = Has (1 / 2), vector = Some [0],
        payload = Some [(''text'', ''beta'')]\<rparr>,
      \<lparr>cid = ''p2'', score = Has (3 / 10), vector = Some [0],
        payload = Some [(''text'', ''gamma'')]\<rparr>]"
  have found: "?search [1] 12 True = Inr [\<lparr>h_id = Has ''p0'', h_score = Has (9 / 10), h_vector = Has [0],
        h_payload = Has [(''text'', ''alpha'')]\<rparr>,
      \<lparr>h_id = Has ''p1'', h_score = Has (1 / 2), h_vector = Has [0],
        h_payload = Has [(''text'', ''beta'')]\<rparr>,
      \<lparr>h_id = Has ''p2'', h_score = Has (3 / 10), h_vector = Has [0],
        h_payload = Has [(''text'', ''gamma'')]\<rparr>]"
    by simp
  have selected: "mmr (map to_candidate [\<lparr>h_id = Has ''p0'', h_score = Has (9 / 10), h_vector = Has [0],
        h_payload = Has [(''text'', ''alpha'')]\<rparr>,
      \<lparr>h_id = Has ''p1'', h_score = Has (1 / 2), h_vector = Has [0],
        h_payload = Has [(''text'', ''beta'')]\<rparr>,
      \<lparr>h_id = Has ''p2'', h_score = Has (3 / 10), h_vector = Has [0],
        h_payload = Has [(''text'', ''gamma'')]\<rparr>]) 3 (1 / 2) = Inr ?sel"
    by (simp add: mmr_def mmr_loop.simps pick_def mmr_val_def sim_sel_def sim_q_def pop_def cosine_of_def
        cosine_def dot_def norm2_def to_candidate_def)
  have texts: "map_result text_of ?sel = Inr [''alpha'', ''beta'', ''gamma'']"
    by (simp add: text_of_def)
  have reranked: "cohere_rerank (\<lambda>e. Inr ()) (Some (\<lambda>model query docs. Inr ?resp)) ''q''
      [''alpha'', ''beta'', ''gamma''] ''rerank'' 2 [] =
      (Inr ([''gamma'', ''beta''], Some ?resp), [(''rerank'', ''q'', [''alpha'', ''beta'', ''gamma''])])"
    by (simp add: cohere_rerank_def ranked_def py_slice_to_def py_getitem_def text_of_def)
  from retrieve_reranked [where search_vectors = ?search and query_vector = "[1]" and topk = 12,
      OF found _ selected texts reranked]
  obtain top_items where
    "retrieve (\<lambda>e. Inr ()) ?search (Some (\<lambda>model query docs. Inr ?resp)) ''rerank'' [1] ''q'' 12 3 2 [] =
       (Inr top_items, [(''rerank'', ''q'', [''alpha'', ''beta'', ''gamma''])])"
    "map_result (\<lambda>r. py_getitem ?sel (index r))
       (py_slice_to (sort_key (\<lambda>r. - r_score r) (results ?resp)) 2) = Inr top_items"
    by blast
  then show ?thesis
    by (simp add: py_slice_to_def py_getitem_def)
qed

text \<open>
  C9 fails on the code. \<^verbatim>\<open>search_vectors\<close> does not ask the database for vectors, and
  \<open>retrieve\<close> stores \<open>None\<close> as the vector of a hit that has none. With two such hits, no
  client and the default \<open>topk = 12\<close>, \<open>mmr_k = 8\<close> and \<open>rerank_topk = 5\<close>, the second
  round of \<open>mmr\<close> raises TypeError in \<^verbatim>\<open>_cosine\<close>, and \<open>retrieve\<close>, which does not catch
  it, raises too instead of returning the MMR order.
\<close>

theorem retrieve_raises_without_vectors:
  "retrieve (\<lambda>e. Inr ()) (\<lambda>query_vector top_k with_payload. Inr [\<lparr>h_id = Has ''p0'', h_score = Has (9 / 10), h_vector = IsNone,
        h_payload = Has [(''text'', ''alpha'')]\<rparr>,
      \<lparr>h_id = Has ''p1'', h_score = Has (1 / 2), h_vector = IsNone,
        h_payload = Has [(''text'', ''beta'')]\<rparr>])
      None
      ''rerank'' [1] ''q'' 12 8 5 [] = (Inl TypeError, [])"
  by (simp add: retrieve_def mmr_def mmr_loop.simps pick_def mmr_val_def sim_sel_def sim_q_def pop_def
        cosine_of_def to_candidate_def)

text \<open>
  C10, as the code has it. For every response that has, among its first \<open>rerank_topk\<close>
  results in descending score order, an index \<open>i\<close> with \<open>i \<ge> n\<close> or \<open>i < -n\<close> (\<open>n\<close> the
  size of the MMR selection), the adapter's own \<^verbatim>\<open>except\<close> catches the IndexError; where
  its warning can be printed, the adapter reports unavailable and \<open>retrieve\<close> returns
  \<^verbatim>\<open>mmr_sel[:rerank_topk]\<close>. Nothing is said here about a \<^verbatim>\<open>print\<close> that raises.
\<close>

theorem retrieve_bad_index:
  assumes "search_vectors query_vector topk True = Inr hits" "hits \<noteq> []"
    and "mmr (map to_candidate hits) mmr_k (1 / 2) = Inr mmr_sel"
    and "map_result text_of mmr_sel = Inr docs"
    and "co_client = Some rerank"
    and "rerank RERANK_MODEL query_text docs = Inr resp"
    and "\<exists>r\<in>set (py_slice_to (ranked resp) rerank_topk).
           int (length mmr_sel) \<le> index r \<or> index r < - int (length mmr_sel)"
    and "py_print IndexError = Inr ()"
  shows "fst (retrieve py_print search_vectors co_client RERANK_MODEL query_vector query_text topk mmr_k
                rerank_topk calls) = Inr (py_slice_to mmr_sel rerank_topk)"
proof -
  have len: "length docs = length mmr_sel"
    using assms(4) by (rule map_result_length)
  from assms(7) obtain r where r: "r \<in> set (py_slice_to (ranked resp) rerank_topk)"
      "int (length mmr_sel) \<le> index r \<or> index r < - int (length mmr_sel)"
    by blast
  have "py_getitem docs (index r) = Inl IndexError"
    using r(2) len by (intro py_getitem_out_of_range) simp
  with r(1) obtain e where
    e: "map_result (\<lambda>r. py_getitem docs (index r)) (py_slice_to (ranked resp) rerank_topk) = Inl e"
    using map_result_Inl [of r "py_slice_to (ranked resp) rerank_topk"
        "\<lambda>r. py_getitem docs (index r)" IndexError] by blast
  then have "e = IndexError" by (rule map_result_getitem_error)
  with e assms(5,6,8)
  have "fst (cohere_rerank py_print co_client query_text docs RERANK_MODEL rerank_topk calls) = Inr ([], None)"
    by (simp add: cohere_rerank_def rerank_failed_def Let_def)
  then show ?thesis
    by (auto simp: retrieve_after_mmr [where search_vectors = search_vectors
          and query_vector = query_vector and topk = topk, OF assms(1,2,3,4)]
        split: prod.splits sum.splits option.splits)
qed

theorem retrieve_bad_index_witness:
  "fst (retrieve (\<lambda>e. Inr ()) (\<lambda>query_vector top_k with_payload. Inr [\<lparr>h_id = Has ''p0'', h_score = Has (9 / 10), h_vector = Has [0],
        h_payload = Has [(''text'', ''alpha'')]\<rparr>,
      \<lparr>h_id = Has ''p1'', h_score = Has (1 / 2), h_vector = Has [0],
        h_payload = Has [(''text'', ''beta'')]\<rparr>])
      (Some (\<lambda>model query docs. Inr \<lparr>results = [\<lparr>index = 5, r_score = 9 / 10\<rparr>, \<lparr>index = 0, r_score = 1 / 10\<rparr>]\<rparr>))
      ''rerank'' [1] ''q'' 12 2 1 []) =
     Inr [\<lparr>cid = ''p0'', score = Has (9 / 10), vector = Some [0],
        payload = Some [(''text'', ''alpha'')]\<rparr>]"
proof -
  let ?search = "(\<lambda>query_vector top_k with_payload. Inr [\<lparr>h_id = Has ''p0'', h_score = Has (9 / 10), h_vector = Has [0],
        h_payload = Has [(''text'', ''alpha'')]\<rparr>,
      \<lparr>h_id = Has ''p1'', h_score = Has (1 / 2), h_vector = Has [0],
        h_payload = Has [(''text'', ''beta'')]\<rparr>])"
  let ?resp = "\<lparr>results = [\<lparr>index = 5, r_score = 9 / 10\<rparr>, \<lparr>index = 0, r_score = 1 / 10\<rparr>]\<rparr>"
  let ?sel = "[\<lparr>cid = ''p0'', score = Has (9 / 10), vector = Some [0],
        payload = Some [(''text'', ''alpha'')]\<rparr>,
      \<lparr>cid = ''p1'', score = Has (1 / 2), vector = Some [0],
        payload = Some [(''text'', ''beta'')]\<rparr>]"
  have found: "?search [1] 12 True = Inr [\<lparr>h_id = Has ''p0'', h_score = Has (9 / 10), h_vector = Has [0],
        h_payload = Has [(''text'', ''alpha'')]\<rparr>,
      \<lparr>h_id = Has ''p1'', h_score = Has (1 / 2), h_vector = Has [0],
        h_payload = Has [(''text'', ''beta'')]\<rparr>]"
    by simp
  have selected: "mmr (map to_candidate [\<lparr>h_id = Has ''p0'', h_score = Has (9 / 10), h_vector = Has [0],
        h_payload = Has [(''text'', ''alpha'')]\<rparr>,
      \<lparr>h_id = Has ''p1'', h_score = Has (1 / 2), h_vector = Has [0],
        h_payload = Has [(''text'', ''beta'')]\<rparr>]) 2 (1 / 2) = Inr ?sel"
    by (simp add: mmr_def mmr_loop.simps pick_def mmr_val_def sim_sel_def sim_q_def pop_def cosine_of_def
        cosine_def dot_def norm2_def to_candidate_def)
  have texts: "map_result text_of ?sel = Inr [''alpha'', ''beta'']"
    by (simp add: text_of_def)
  have answered: "(\<lambda>model query docs. Inr ?resp) ''rerank'' ''q'' [''alpha'', ''beta''] = Inr ?resp"
    by simp
  have bad: "\<exists>r\<in>set (py_slice_to (ranked ?resp) 1).
           int (length ?sel) \<le> index r \<or> index r < - int (length ?sel)"
    by (simp add: ranked_def py_slice_to_def)
  have printed: "(\<lambda>e. Inr ()) IndexError = Inr ()"
    by simp
  from retrieve_bad_index [where search_vectors = ?search and query_vector = "[1]" and topk = 12
        and rerank = "\<lambda>model query docs. Inr ?resp" and RERANK_MODEL = "''rerank''"
        and query_text = "''q''" and resp = ?resp and calls = "[]" and py_print = "(\<lambda>e. Inr ())",
      OF found _ selected texts refl answered bad printed]
  show ?thesis
    by (simp add: py_slice_to_def)
qed

text \<open>
  C10 as stated fails: an index out of range that lies beyond the first \<open>rerank_topk\<close>
  results is never read, and \<open>retrieve\<close> returns the reranked survivors, not the MMR order.
\<close>

theorem retrieve_bad_index_counterexample:
  "fst (retrieve (\<lambda>e. Inr ()) (\<lambda>query_vector top_k with_payload. Inr [\<lparr>h_id = Has ''p0'', h_score = Has (9 / 10), h_vector = Has [0],
        h_payload = Has [(''text'', ''alpha'')]\<rparr>,
      \<lparr>h_id = Has ''p1'', h_score = Has (1 / 2), h_vector = Has [0],
        h_payload = Has [(''text'', ''beta'')]\<rparr>])
      (Some (\<lambda>model query docs. Inr \<lparr>results = [\<lparr>index = 1, r_score = 9 / 10\<rparr>, \<lparr>index = 0, r_score = 1 / 2\<rparr>, \<lparr>index = 7, r_score = 1 / 10\<rparr>]\<rparr>))
      ''rerank'' [1] ''q'' 12 2 2 []) =
     Inr [\<lparr>cid = ''p1'', score = Has (1 / 2), vector = Some [0],
        payload = Some [(''text'', ''beta'')]\<rparr>,
      \<lparr>cid = ''p0'', score = Has (9 / 10), vector = Some [0],
        payload = Some [(''text'', ''alpha'')]\<rparr>]"
  by (simp add: retrieve_def mmr_def mmr_loop.simps pick_def mmr_val_def sim_sel_def sim_q_def pop_def cosine_of_def
        cosine_def dot_def norm2_def to_candidate_def
        cohere_rerank_def ranked_def py_slice_to_def py_getitem_def text_of_def)

end
